theory Spec2Isabelle
  imports Complex_Main "HOL-Library.AList" "HOL-Library.Product_Lexorder"
begin

section \<open>Values, errors and text helpers\<close>

text \<open>
  The pipeline of \<^verbatim>\<open>src/analytics/pipeline.py\<close> reads order snapshots (JSON
  dictionaries), derives cancellation and refund facts from them, and recomputes daily
  summary tables with SQL. Every raise of the source is a value of \<open>error\<close>; a function
  that can raise returns \<open>error + 'a\<close> with \<open>Inl\<close> for the exception.
\<close>

datatype error = ValueError | OverflowError | TypeError

text \<open>
  A monetary JSON field is absent or null (\<open>PNone\<close>), a JSON number or a JSON string.
  Python floats are idealised as exact rationals throughout.
\<close>

datatype pyval = PNone | PNum rat | PStr string

definition digit_val :: "char \<Rightarrow> nat option" where
  "digit_val c =
     (let n = (of_char c :: nat) in if 48 \<le> n \<and> n \<le> 57 then Some (n - 48) else None)"

fun digits_val :: "string \<Rightarrow> nat \<Rightarrow> nat option" where
  "digits_val [] acc = Some acc"
| "digits_val (c # cs) acc =
     (case digit_val c of None \<Rightarrow> None | Some d \<Rightarrow> digits_val cs (10 * acc + d))"

text \<open>A non-empty run of ASCII digits read as a decimal number.\<close>

definition nat_of_digits :: "string \<Rightarrow> nat option" where
  "nat_of_digits s = (if s = [] then None else digits_val s 0)"

text \<open>ASCII white space, and \<^verbatim>\<open>s.strip()\<close>.\<close>

definition is_space :: "char \<Rightarrow> bool" where
  "is_space c = (c = CHR '' '' \<or> (9 \<le> (of_char c :: nat) \<and> (of_char c :: nat) \<le> 13))"

definition strip :: "string \<Rightarrow> string" where
  "strip s = rev (dropWhile is_space (rev (dropWhile is_space s)))"

text \<open>
  \<^verbatim>\<open>float(s)\<close> on a string, for plain decimal text: surrounding white space, an
  optional sign, digits with an optional fraction. Anything else is \<open>None\<close>, where Python
  raises ValueError. Exponents, \<^verbatim>\<open>inf\<close>, \<^verbatim>\<open>nan\<close> and digit separators are not
  covered.
\<close>

definition unsigned_decimal :: "string \<Rightarrow> rat option" where
  "unsigned_decimal s =
     (let ip = takeWhile (\<lambda>c. c \<noteq> CHR ''.'') s;
          rest = dropWhile (\<lambda>c. c \<noteq> CHR ''.'') s
      in if rest = [] then map_option of_nat (nat_of_digits ip)
         else let fp = tl rest in
           if ip = [] \<and> fp = [] then None
           else (case (digits_val ip 0, digits_val fp 0) of
                   (Some a, Some b) \<Rightarrow> Some (of_nat a + of_nat b / 10 ^ length fp)
                 | _ \<Rightarrow> None))"

definition float_of_string :: "string \<Rightarrow> rat option" where
  "float_of_string s =
     (case strip s of
        [] \<Rightarrow> None
      | c # cs \<Rightarrow>
          if c = CHR ''-'' then map_option uminus (unsigned_decimal cs)
          else if c = CHR ''+'' then unsigned_decimal cs
          else unsigned_decimal (c # cs))"

text \<open>
  \<^verbatim>\<open>float(x or 0.0)\<close>: a falsy field (null, the number zero, the empty text) counts
  as zero, and a text that is not a number raises ValueError.
\<close>

fun float_or_zero :: "pyval \<Rightarrow> error + rat" where
  "float_or_zero PNone = Inr 0"
| "float_or_zero (PNum r) = Inr r"
| "float_or_zero (PStr s) =
     (if s = [] then Inr 0
      else case float_of_string s of None \<Rightarrow> Inl ValueError | Some r \<Rightarrow> Inr r)"

text \<open>
  \<^verbatim>\<open>round(v, 2)\<close> on the idealised value: to the nearest hundredth, ties to the even
  hundredth.
\<close>

definition round2 :: "rat \<Rightarrow> rat" where
  "round2 v =
     (let y = v * 100; f = \<lfloor>y\<rfloor>; r = y - of_int f
      in of_int (if r < 1 / 2 then f else if 1 / 2 < r then f + 1
                 else if even f then f else f + 1) / 100)"

definition lower_char :: "char \<Rightarrow> char" where
  "lower_char c =
     (let n = (of_char c :: nat) in if 65 \<le> n \<and> n \<le> 90 then char_of (n + 32) else c)"

definition lower :: "string \<Rightarrow> string" where
  "lower s = map lower_char s"

section \<open>Calendar dates and the IST date of a timestamp\<close>

text \<open>
  A calendar date is (year, month, day). The source holds a date as the ten characters
  \<^verbatim>\<open>YYYY-MM-DD\<close> that \<^verbatim>\<open>date.isoformat()\<close> prints; that text and the triple
  determine each other, and the order of the texts is the lexicographic order of the
  triples, which is the order used here.
\<close>

type_synonym date = "nat \<times> nat \<times> nat"

definition is_leap :: "nat \<Rightarrow> bool" where
  "is_leap y = (y mod 4 = 0 \<and> (y mod 100 \<noteq> 0 \<or> y mod 400 = 0))"

definition days_in_month :: "nat \<Rightarrow> nat \<Rightarrow> nat" where
  "days_in_month y m =
     (if m = 2 then (if is_leap y then 29 else 28)
      else if m = 4 \<or> m = 6 \<or> m = 9 \<or> m = 11 then 30 else 31)"

definition valid_date :: "date \<Rightarrow> bool" where
  "valid_date dt = (case dt of (y, m, d) \<Rightarrow>
     1 \<le> y \<and> y \<le> 9999 \<and> 1 \<le> m \<and> m \<le> 12 \<and> 1 \<le> d \<and> d \<le> days_in_month y m)"

definition next_day :: "date \<Rightarrow> date" where
  "next_day dt = (case dt of (y, m, d) \<Rightarrow>
     if d < days_in_month y m then (y, m, d + 1)
     else if m < 12 then (y, m + 1, 1) else (y + 1, 1, 1))"

definition prev_day :: "date \<Rightarrow> date" where
  "prev_day dt = (case dt of (y, m, d) \<Rightarrow>
     if 1 < d then (y, m, d - 1)
     else if 1 < m then (y, m - 1, days_in_month y (m - 1)) else (y - 1, 12, 31))"

text \<open>Move a date by a small number of days, forwards or backwards.\<close>

definition add_days :: "int \<Rightarrow> date \<Rightarrow> date" where
  "add_days k dt = (if 0 \<le> k then (next_day ^^ nat k) dt else (prev_day ^^ nat (- k)) dt)"

text \<open>
  A parsed timestamp: the local calendar date, the second of the local day, and the
  offset from UTC in seconds.
\<close>

record datetime =
  dt_date :: date
  dt_second :: nat
  dt_offset :: int

definition replace_Z :: "string \<Rightarrow> string" where
  "replace_Z s = concat (map (\<lambda>c. if c = CHR ''Z'' then ''+00:00'' else [c]) s)"

text \<open>
  \<^verbatim>\<open>datetime.fromisoformat\<close> for the timestamps the upstream API emits:
  \<^verbatim>\<open>YYYY-MM-DDTHH:MM:SS\<close> followed by an offset \<^verbatim>\<open>+HH:MM\<close> or \<^verbatim>\<open>-HH:MM\<close>
  (the \<^verbatim>\<open>Z\<close> suffix has been replaced by the caller). Fields out of range or any other
  shape give \<open>None\<close>, where Python raises ValueError. Fractions of a second and
  timestamps without an offset (which Python reads in the zone of the host) are not
  covered.
\<close>

definition fromisoformat :: "string \<Rightarrow> datetime option" where
  "fromisoformat s =
     (if length s \<noteq> 25 then None
      else if s ! 4 \<noteq> CHR ''-'' \<or> s ! 7 \<noteq> CHR ''-'' \<or> s ! 13 \<noteq> CHR '':'' \<or>
              s ! 16 \<noteq> CHR '':'' \<or> s ! 22 \<noteq> CHR '':'' \<or>
              (s ! 19 \<noteq> CHR ''+'' \<and> s ! 19 \<noteq> CHR ''-'') then None
      else
        case (nat_of_digits (take 4 s), nat_of_digits (take 2 (drop 5 s)),
              nat_of_digits (take 2 (drop 8 s)), nat_of_digits (take 2 (drop 11 s)),
              nat_of_digits (take 2 (drop 14 s)), nat_of_digits (take 2 (drop 17 s)),
              nat_of_digits (take 2 (drop 20 s)), nat_of_digits (take 2 (drop 23 s))) of
          (Some y, Some m, Some d, Some hh, Some mi, Some ss, Some oh, Some om) \<Rightarrow>
            if valid_date (y, m, d) \<and> hh < 24 \<and> mi < 60 \<and> ss < 60 \<and> oh < 24 \<and> om < 60
            then Some \<lparr> dt_date = (y, m, d), dt_second = hh * 3600 + mi * 60 + ss,
                        dt_offset = (if s ! 19 = CHR ''-'' then - 1 else 1) *
                                    int (oh * 3600 + om * 60) \<rparr>
            else None
        | _ \<Rightarrow> None)"

text \<open>
  \<^verbatim>\<open>dt.astimezone(IST).date()\<close>. The zone Asia/Kolkata is the fixed offset +05:30 it
  has had since 1945. Python first moves to UTC and then to the zone; either step
  leaving the years 1 to 9999 raises OverflowError.
\<close>

definition ist_offset :: int where
  "ist_offset = 19800"

definition astimezone_ist_date :: "datetime \<Rightarrow> error + date" where
  "astimezone_ist_date dt =
     (let utc_second = int (dt_second dt) - dt_offset dt;
          utc_date = add_days (utc_second div 86400) (dt_date dt);
          ist_date = add_days ((utc_second + ist_offset) div 86400) (dt_date dt)
      in if valid_date utc_date \<and> valid_date ist_date then Inr ist_date
         else Inl OverflowError)"

text \<open>
  \<^verbatim>\<open>_parse_iso_to_ist_date\<close>: a missing or empty timestamp and every exception give
  \<open>None\<close>.
\<close>

definition parse_iso_to_ist_date :: "string option \<Rightarrow> date option" where
  "parse_iso_to_ist_date iso_ts =
     (case iso_ts of
        None \<Rightarrow> None
      | Some s \<Rightarrow>
          if s = [] then None
          else case fromisoformat (replace_Z s) of
                 None \<Rightarrow> None
               | Some dt \<Rightarrow> (case astimezone_ist_date dt of Inl e \<Rightarrow> None | Inr d \<Rightarrow> Some d))"

section \<open>Order snapshots\<close>

text \<open>
  The fields of an order snapshot that the reconciler and the date tracker read. A
  missing key and a JSON null are both \<open>None\<close>; a missing or null list is the empty
  list, as \<^verbatim>\<open>x.get(k) or []\<close> makes it. The id is an integer, as the upstream API
  gives it.
\<close>

record transaction =
  txn_kind :: "string option"
  txn_amount :: pyval

record refund =
  refund_created_at :: "string option"
  refund_transactions :: "transaction list"

record snapshot =
  snap_id :: "int option"
  snap_created_at :: "string option"
  snap_updated_at :: "string option"
  snap_cancelled_at :: "string option"
  snap_total_price :: pyval
  snap_refunds :: "refund list"

section \<open>Returns reconciler\<close>

datatype event_type = CANCEL | REFUND

text \<open>
  The dictionary \<^verbatim>\<open>agg\<close> of the source, in insertion order. Its key is
  \<^verbatim>\<open>(oid, event type, date)\<close>; \<^verbatim>\<open>oid\<close> is \<^verbatim>\<open>str(id)\<close> of an integer id and is
  read back only through \<^verbatim>\<open>int(oid)\<close>, so the key holds the id itself.
\<close>

type_synonym fact_key = "int \<times> event_type \<times> date"
type_synonym agg = "(fact_key \<times> rat) list"

text \<open>\<^verbatim>\<open>agg.get(key, 0.0)\<close>\<close>

definition agg_get :: "agg \<Rightarrow> fact_key \<Rightarrow> rat" where
  "agg_get a k = (case map_of a k of None \<Rightarrow> 0 | Some v \<Rightarrow> v)"

definition is_return_kind :: "transaction \<Rightarrow> bool" where
  "is_return_kind t =
     (let kind = lower (case txn_kind t of None \<Rightarrow> [] | Some s \<Rightarrow> s)
      in kind = ''refund'' \<or> kind = ''chargeback'' \<or> kind = ''return'')"

text \<open>
  The loop over the transactions of one refund record, with the running
  \<^verbatim>\<open>refund_sum\<close>. A transaction whose amount does not parse is passed over.
\<close>

fun refund_sum_loop :: "transaction list \<Rightarrow> rat \<Rightarrow> rat" where
  "refund_sum_loop [] refund_sum = refund_sum"
| "refund_sum_loop (t # txns) refund_sum =
     (if is_return_kind t then
        (case float_or_zero (txn_amount t) of
           Inl e \<Rightarrow> refund_sum_loop txns refund_sum
         | Inr amt \<Rightarrow> refund_sum_loop txns (refund_sum + \<bar>amt\<bar>))
      else refund_sum_loop txns refund_sum)"

text \<open>The loop over the refund records of one snapshot.\<close>

fun refunds_loop :: "int \<Rightarrow> refund list \<Rightarrow> agg \<Rightarrow> agg" where
  "refunds_loop oid [] a = a"
| "refunds_loop oid (rf # rfs) a =
     (case parse_iso_to_ist_date (refund_created_at rf) of
        None \<Rightarrow> refunds_loop oid rfs a
      | Some rdate \<Rightarrow>
          (let refund_sum = refund_sum_loop (refund_transactions rf) 0
           in if 0 < refund_sum
              then refunds_loop oid rfs
                     (AList.update (oid, REFUND, rdate)
                        (agg_get a (oid, REFUND, rdate) + refund_sum) a)
              else refunds_loop oid rfs a))"

text \<open>
  The cancellation part of the loop body. The conversion of \<^verbatim>\<open>total_price\<close> stands
  outside any \<^verbatim>\<open>try\<close>, so its ValueError leaves the function.
\<close>

definition cancel_step :: "int \<Rightarrow> snapshot \<Rightarrow> agg \<Rightarrow> error + agg" where
  "cancel_step oid s a =
     (case parse_iso_to_ist_date (snap_cancelled_at s) of
        None \<Rightarrow> Inr a
      | Some d \<Rightarrow>
          (case float_or_zero (snap_total_price s) of
             Inl e \<Rightarrow> Inl e
           | Inr amt \<Rightarrow>
               Inr (AList.update (oid, CANCEL, d) (max (agg_get a (oid, CANCEL, d)) amt) a)))"

text \<open>The loop over the batch. A snapshot without an id (missing, null or 0) is passed over.\<close>

fun orders_loop :: "snapshot list \<Rightarrow> agg \<Rightarrow> error + agg" where
  "orders_loop [] a = Inr a"
| "orders_loop (s # ss) a =
     (case snap_id s of
        None \<Rightarrow> orders_loop ss a
      | Some i \<Rightarrow>
          if i = 0 then orders_loop ss a
          else (case cancel_step i s a of
                  Inl e \<Rightarrow> Inl e
                | Inr a1 \<Rightarrow> orders_loop ss (refunds_loop i (snap_refunds s) a1)))"

text \<open>A row of \<^verbatim>\<open>returns_fact\<close>; its primary key is (order id, event type, event date).\<close>

record fact =
  fact_order_id :: int
  event_date :: date
  event_type :: event_type
  amount :: rat

definition fact_key :: "fact \<Rightarrow> fact_key" where
  "fact_key r = (fact_order_id r, event_type r, event_date r)"

text \<open>The list \<^verbatim>\<open>rows\<close> built from \<^verbatim>\<open>agg.items()\<close>.\<close>

definition fact_rows :: "agg \<Rightarrow> fact list" where
  "fact_rows a =
     map (\<lambda>(k, v). \<lparr> fact_order_id = fst k, event_date = snd (snd k),
                       event_type = fst (snd k), amount = round2 v \<rparr>) a"

text \<open>
  \<^verbatim>\<open>INSERT ... ON DUPLICATE KEY UPDATE amount = VALUES(amount)\<close> for one row: the
  stored row with the same key takes the new amount, otherwise the row is added.
\<close>

fun upsert_row :: "fact \<Rightarrow> fact list \<Rightarrow> fact list" where
  "upsert_row r [] = [r]"
| "upsert_row r (x # xs) =
     (if fact_key x = fact_key r then x\<lparr>amount := amount r\<rparr> # xs else x # upsert_row r xs)"

fun executemany :: "fact list \<Rightarrow> fact list \<Rightarrow> fact list" where
  "executemany [] tbl = tbl"
| "executemany (r # rows) tbl = executemany rows (upsert_row r tbl)"

text \<open>
  \<^verbatim>\<open>upsert_returns_fact_from_orders\<close> on the table \<^verbatim>\<open>returns_fact\<close>: \<open>Inr\<close> is the
  table after a normal return, \<open>Inl\<close> an exception that leaves the table as it was.
\<close>

definition upsert_returns_fact_from_orders :: "snapshot list \<Rightarrow> fact list \<Rightarrow> error + fact list" where
  "upsert_returns_fact_from_orders orders_list tbl =
     (if orders_list = [] then Inr tbl
      else case orders_loop orders_list [] of
             Inl e \<Rightarrow> Inl e
           | Inr a \<Rightarrow> if a = [] then Inr tbl else Inr (executemany (fact_rows a) tbl))"

text \<open>The table once the call is over, whether it returned or raised.\<close>

definition returns_fact_after :: "snapshot list \<Rightarrow> fact list \<Rightarrow> fact list" where
  "returns_fact_after orders_list tbl =
     (case upsert_returns_fact_from_orders orders_list tbl of Inl e \<Rightarrow> tbl | Inr tbl' \<Rightarrow> tbl')"

section \<open>Affected date range\<close>






section \<open>Notions used to state the properties of the reconciler\<close>

text \<open>The amount stored under a key of \<^verbatim>\<open>returns_fact\<close>, if a row has that key.\<close>

definition amount_at :: "fact_key \<Rightarrow> fact list \<Rightarrow> rat option" where
  "amount_at k tbl = map_option amount (find (\<lambda>x. fact_key x = k) tbl)"

text \<open>
  The total prices that the snapshots of a batch report for one cancellation key, in the
  order of the batch.
\<close>

definition cancel_prices :: "int \<Rightarrow> date \<Rightarrow> snapshot list \<Rightarrow> rat list" where
  "cancel_prices i d ss =
     List.map_filter
       (\<lambda>s. if snap_id s = Some i \<and> parse_iso_to_ist_date (snap_cancelled_at s) = Some d
            then (case float_or_zero (snap_total_price s) of Inl e \<Rightarrow> None | Inr p \<Rightarrow> Some p)
            else None) ss"

text \<open>
  The amount of a transaction, zero when its text does not parse, and the refund total of
  one day over a list of refund records.
\<close>

definition txn_value :: "transaction \<Rightarrow> rat" where
  "txn_value t = (case float_or_zero (txn_amount t) of Inl e \<Rightarrow> 0 | Inr amt \<Rightarrow> amt)"

definition day_refund_total :: "date \<Rightarrow> refund list \<Rightarrow> rat" where
  "day_refund_total d rfs =
     (\<Sum>rf\<leftarrow>filter (\<lambda>rf. parse_iso_to_ist_date (refund_created_at rf) = Some d) rfs.
        \<Sum>t\<leftarrow>filter is_return_kind (refund_transactions rf). \<bar>txn_value t\<bar>)"

section \<open>Fetch window and records at its boundary\<close>

text \<open>
  A naive datetime, as MySQL \<^verbatim>\<open>DATETIME\<close> columns and the IST wall clock give it, is
  the number of seconds since 0001-01-01 00:00:00. The greatest one is
  9999-12-31 23:59:59; adding a \<^verbatim>\<open>timedelta\<close> beyond it raises OverflowError.
\<close>

type_synonym timestamp = int







text \<open>
  What the cursor does with
  \<^verbatim>\<open>SELECT order_id FROM table WHERE timestamp_field = %s\<close>:
  it raises \<^verbatim>\<open>mysql.connector.Error\<close> or yields the order ids of the matching rows.
\<close>

datatype query_outcome = Raises_mysql_Error | Rows "string list"

definition get_orders_with_same_timestamp :: "(timestamp \<Rightarrow> query_outcome) \<Rightarrow> timestamp \<Rightarrow> string set" where
  "get_orders_with_same_timestamp cursor timestamp_value =
     (case cursor timestamp_value of Raises_mysql_Error \<Rightarrow> {} | Rows ids \<Rightarrow> set ids)"



text \<open>\<^verbatim>\<open>str(n)\<close> for an integer, and \<^verbatim>\<open>str(o.get('id'))\<close>.\<close>

definition digit_char :: "nat \<Rightarrow> char" where
  "digit_char n = char_of (48 + n)"

function nat_digits :: "nat \<Rightarrow> string" where
  "nat_digits n = (if n < 10 then [digit_char n] else nat_digits (n div 10) @ [digit_char (n mod 10)])"
  by pat_completeness auto

termination
  by (relation "measure id") auto

definition str_int :: "int \<Rightarrow> string" where
  "str_int i = (if i < 0 then CHR ''-'' # nat_digits (nat (- i)) else nat_digits (nat i))"

definition str_id :: "int option \<Rightarrow> string" where
  "str_id x = (case x of None \<Rightarrow> ''None'' | Some i \<Rightarrow> str_int i)"

text \<open>The list \<^verbatim>\<open>filtered\<close>: with no known ids the fetched list is taken as it is.\<close>

definition filter_duplicates :: "string set \<Rightarrow> snapshot list \<Rightarrow> snapshot list" where
  "filter_duplicates existing_ids orders_list =
     (if existing_ids \<noteq> {} then filter (\<lambda>s. str_id (snap_id s) \<notin> existing_ids) orders_list
      else orders_list)"

section \<open>Fetching the pages of a window\<close>










section \<open>Tables of the store\<close>

text \<open>
  The tables are lists of rows. Only the columns that the summary statements read or
  write are kept. A nullable column that a statement reads is an \<open>option\<close>, with
  \<open>None\<close> for NULL. Amounts are exact rationals; the rounding of a value into a
  \<^verbatim>\<open>DECIMAL(12,2)\<close> column is left out. The text columns \<^verbatim>\<open>created_date\<close> and
  \<^verbatim>\<open>updated_date\<close> hold \<^verbatim>\<open>YYYY-MM-DD\<close> and are kept as dates, \<^verbatim>\<open>created_time\<close>
  is kept as its hour. Texts are compared exactly. Every statement is taken to succeed.
\<close>

record order_row =
  created_date :: "date option"
  created_hour :: "nat option"
  updated_date :: "date option"
  order_id :: "string option"
  order_app_name :: "string option"
  total_price :: "rat option"
  financial_status :: "string option"
  payment_gateway_names :: "string option"
  discount_amount :: "rat option"
  line_item_quantity :: "int option"
  line_item_price :: "rat option"
  shipping_price :: "rat option"
  total_tax :: "rat option"

record sessions_row =
  sess_date :: date
  sess_number_of_sessions :: int
  sess_number_of_atc_sessions :: int
  adjusted_number_of_sessions :: "int option"

record hourly_sessions_row =
  hsess_date :: date
  hsess_hour :: nat
  hsess_number_of_sessions :: int
  hsess_number_of_atc_sessions :: int

text \<open>
  The nine sales channels, that is the values of \<^verbatim>\<open>order_app_name\<close> that
  \<^verbatim>\<open>sales_summary\<close> has columns for. The three columns of a channel (sales, returns,
  actual sale) are held as functions of the channel.
\<close>

datatype channel =
  GoKwik | KwikEngage | Online_Store | HYPD_store | Draft_Order | Dpanda | GKAppbrew |
  BuyKaro | AppbrewPlus

fun channel_name :: "channel \<Rightarrow> string" where
  "channel_name GoKwik = ''GoKwik''"
| "channel_name KwikEngage = ''KwikEngage''"
| "channel_name Online_Store = ''Online Store''"
| "channel_name HYPD_store = ''HYPD_store''"
| "channel_name Draft_Order = ''Draft Order''"
| "channel_name Dpanda = ''Dpanda''"
| "channel_name GKAppbrew = ''GKAppbrew''"
| "channel_name BuyKaro = ''BuyKaro''"
| "channel_name AppbrewPlus = ''AppbrewPlus''"

record sales_summary_row =
  ss_date :: date
  channel_sales :: "channel \<Rightarrow> rat"
  channel_returns :: "channel \<Rightarrow> rat"
  actual_channel_sale :: "channel \<Rightarrow> rat"
  overall_sales_WO_hypd :: rat
  overall_returns_WO_hypd :: rat
  actual_overall_sales_WO_hypd :: rat
  overall_sales :: rat
  overall_returns :: rat
  actual_overall_sales :: rat

record order_summary_row =
  os_date :: date
  number_of_orders_created :: int
  number_of_orders_returned :: int
  actual_number_of_orders :: int
  os_cod_orders :: int
  os_prepaid_orders :: int
  os_partially_paid_orders :: int
  overall_cod_orders :: int
  overall_prepaid_orders :: int
  overall_partially_paid_orders :: int

record discount_summary_row =
  ds_date :: date
  total_discounts_given :: rat
  total_discount_on_returns :: rat
  ds_actual_discounts :: rat

record gross_summary_row =
  gs_date :: date
  overall_sale :: rat
  shipping_total :: rat
  discounts_total :: rat
  tax_total :: rat
  gs_gross_sales :: rat
  gs_actual_discounts :: rat
  gs_net_sales :: rat

record hour_wise_sales_row =
  hw_date :: date
  hw_hour :: nat
  number_of_orders :: int
  hw_total_sales :: rat
  number_of_prepaid_orders :: int
  number_of_cod_orders :: int
  hw_number_of_sessions :: int
  hw_number_of_atc_sessions :: int

record overall_summary_row =
  ov_date :: date
  ov_gross_sales :: rat
  total_discount_amount :: rat
  ov_total_sales :: rat
  ov_net_sales :: rat
  total_orders :: int
  ov_cod_orders :: int
  ov_prepaid_orders :: int
  ov_partially_paid_orders :: int
  total_sessions :: int
  total_atc_sessions :: int
  adjusted_total_sessions :: int

text \<open>
  The tables of one tenant. The two order tables carry the suffix \<open>_tbl\<close> since the
  name \<open>shopify_orders_update\<close> is taken by the record package.
\<close>

record database =
  shopify_orders_tbl :: "order_row list"
  shopify_orders_update_tbl :: "order_row list"
  returns_fact :: "fact list"
  sessions_summary :: "sessions_row list"
  hourly_sessions_summary :: "hourly_sessions_row list"
  sales_summary :: "sales_summary_row list"
  order_summary :: "order_summary_row list"
  discount_summary :: "discount_summary_row list"
  gross_summary :: "gross_summary_row list"
  hour_wise_sales :: "hour_wise_sales_row list"
  overall_summary :: "overall_summary_row list"

text \<open>\<^verbatim>\<open>x BETWEEN lo AND hi\<close>\<close>

definition between :: "date \<Rightarrow> date \<Rightarrow> date \<Rightarrow> bool" where
  "between d min_date max_date = (min_date \<le> d \<and> d \<le> max_date)"

text \<open>\<^verbatim>\<open>COALESCE(x, 0)\<close>\<close>

definition coalesce0 :: "'a::zero option \<Rightarrow> 'a" where
  "coalesce0 x = (case x of None \<Rightarrow> 0 | Some v \<Rightarrow> v)"

text \<open>
  \<^verbatim>\<open>s LIKE pattern\<close>: \<^verbatim>\<open>%\<close> stands for any run of characters, \<^verbatim>\<open>_\<close> for any
  one character. A NULL text matches no pattern.
\<close>

fun like :: "string \<Rightarrow> string \<Rightarrow> bool" where
  "like [] [] = True"
| "like [] (p # ps) = (p = CHR ''%'' \<and> like [] ps)"
| "like (c # cs) [] = False"
| "like (c # cs) (p # ps) =
     (if p = CHR ''%'' then like (c # cs) ps \<or> like cs (p # ps)
      else (p = CHR ''_'' \<or> p = c) \<and> like cs ps)"

definition null_like :: "string option \<Rightarrow> string \<Rightarrow> bool" where
  "null_like s pattern = (case s of None \<Rightarrow> False | Some t \<Rightarrow> like t pattern)"

text \<open>
  The rows that \<^verbatim>\<open>WHERE created_date BETWEEN %s AND %s\<close> keeps, and the rows that
  \<^verbatim>\<open>WHERE financial_status NOT IN ('paid', 'pending') AND updated_date BETWEEN %s AND %s\<close>
  keeps. A NULL date or a NULL status fails the condition.
\<close>

definition created_between :: "date \<Rightarrow> date \<Rightarrow> order_row list \<Rightarrow> order_row list" where
  "created_between min_date max_date rows =
     filter (\<lambda>r. case created_date r of None \<Rightarrow> False
                 | Some d \<Rightarrow> between d min_date max_date) rows"

definition not_paid_or_pending :: "order_row \<Rightarrow> bool" where
  "not_paid_or_pending r =
     (case financial_status r of None \<Rightarrow> False | Some s \<Rightarrow> s \<noteq> ''paid'' \<and> s \<noteq> ''pending'')"

definition returned_between :: "date \<Rightarrow> date \<Rightarrow> order_row list \<Rightarrow> order_row list" where
  "returned_between min_date max_date rows =
     filter (\<lambda>r. not_paid_or_pending r \<and>
                 (case updated_date r of None \<Rightarrow> False
                  | Some d \<Rightarrow> between d min_date max_date)) rows"

text \<open>The groups of \<^verbatim>\<open>GROUP BY\<close> on a date column, and the rows of one group.\<close>

definition group_dates :: "('r \<Rightarrow> date option) \<Rightarrow> 'r list \<Rightarrow> date list" where
  "group_dates col rows = remdups (List.map_filter col rows)"

definition on_date :: "('r \<Rightarrow> date option) \<Rightarrow> date \<Rightarrow> 'r list \<Rightarrow> 'r list" where
  "on_date col d rows = filter (\<lambda>r. col r = Some d) rows"

text \<open>\<^verbatim>\<open>COUNT(DISTINCT CASE WHEN cond THEN order_id END)\<close>\<close>

definition count_distinct_ids :: "(order_row \<Rightarrow> bool) \<Rightarrow> order_row list \<Rightarrow> int" where
  "count_distinct_ids cond rows = int (length (remdups (List.map_filter order_id (filter cond rows))))"

text \<open>A left join on the key of the joined table finds its one row for the date, if any.\<close>

definition lookup_date :: "('r \<Rightarrow> date) \<Rightarrow> date \<Rightarrow> 'r list \<Rightarrow> 'r option" where
  "lookup_date col d rows = find (\<lambda>r. col r = d) rows"

text \<open>\<^verbatim>\<open>DELETE FROM t WHERE date BETWEEN %s AND %s\<close>\<close>

definition delete_between :: "('r \<Rightarrow> date) \<Rightarrow> date \<Rightarrow> date \<Rightarrow> 'r list \<Rightarrow> 'r list" where
  "delete_between col min_date max_date rows =
     filter (\<lambda>r. \<not> between (col r) min_date max_date) rows"

section \<open>Recomputing the summary tables for a range of dates\<close>

text \<open>
  \<^verbatim>\<open>SUM(CASE WHEN order_app_name = name THEN total_price ELSE 0 END)\<close> over the rows
  of a group. A NULL price adds nothing; every use of the sum is under a
  \<^verbatim>\<open>COALESCE(..., 0)\<close>, so the sum of no value at all counts as zero.
\<close>

definition channel_total :: "string \<Rightarrow> order_row list \<Rightarrow> rat" where
  "channel_total name rows =
     (\<Sum>r\<leftarrow>rows. if order_app_name r = Some name then coalesce0 (total_price r) else 0)"

text \<open>The common table expressions of \<^verbatim>\<open>update_sales_summary_incremental\<close>.\<close>

definition SalesData :: "date \<Rightarrow> date \<Rightarrow> database \<Rightarrow> (date \<times> (channel \<Rightarrow> rat)) list" where
  "SalesData min_date max_date db =
     (let rows = created_between min_date max_date (shopify_orders_tbl db)
      in map (\<lambda>d. (d, \<lambda>c. channel_total (channel_name c) (on_date created_date d rows)))
           (group_dates created_date rows))"

definition ReturnsData :: "date \<Rightarrow> date \<Rightarrow> database \<Rightarrow> (date \<times> (channel \<Rightarrow> rat)) list" where
  "ReturnsData min_date max_date db =
     (let rows = returned_between min_date max_date (shopify_orders_update_tbl db)
      in map (\<lambda>d. (d, \<lambda>c. channel_total (channel_name c) (on_date updated_date d rows)))
           (group_dates updated_date rows))"

definition RefundsByDate :: "date \<Rightarrow> date \<Rightarrow> database \<Rightarrow> (date \<times> rat) list" where
  "RefundsByDate min_date max_date db =
     (let rows = filter (\<lambda>f. event_type f = REFUND \<and> between (event_date f) min_date max_date)
                   (returns_fact db)
      in map (\<lambda>d. (d, \<Sum>f\<leftarrow>filter (\<lambda>f. event_date f = d) rows. amount f))
           (remdups (map event_date rows)))"

definition AllDates :: "date \<Rightarrow> date \<Rightarrow> database \<Rightarrow> date list" where
  "AllDates min_date max_date db =
     remdups (map fst (SalesData min_date max_date db) @
              map fst (ReturnsData min_date max_date db) @
              map fst (RefundsByDate min_date max_date db))"

text \<open>A channel column of a left-joined row under \<^verbatim>\<open>COALESCE(..., 0)\<close>.\<close>

definition channel_or_zero :: "(channel \<Rightarrow> rat) option \<Rightarrow> channel \<Rightarrow> rat" where
  "channel_or_zero j c = (case j of None \<Rightarrow> 0 | Some f \<Rightarrow> f c)"

definition sum_WO_hypd :: "(channel \<Rightarrow> rat) \<Rightarrow> rat" where
  "sum_WO_hypd f =
     f GoKwik + f KwikEngage + f Online_Store + f Draft_Order + f Dpanda + f GKAppbrew +
     f BuyKaro + f AppbrewPlus"

definition sum_with_hypd :: "(channel \<Rightarrow> rat) \<Rightarrow> rat" where
  "sum_with_hypd f =
     f GoKwik + f KwikEngage + f Online_Store + f Draft_Order + f HYPD_store + f Dpanda +
     f GKAppbrew + f BuyKaro + f AppbrewPlus"

text \<open>The rows that the \<^verbatim>\<open>INSERT INTO sales_summary ... SELECT\<close> adds.\<close>

definition sales_summary_rows :: "date \<Rightarrow> date \<Rightarrow> database \<Rightarrow> sales_summary_row list" where
  "sales_summary_rows min_date max_date db =
     map (\<lambda>d.
            let s = channel_or_zero (map_of (SalesData min_date max_date db) d);
                r = channel_or_zero (map_of (ReturnsData min_date max_date db) d);
                rfd = coalesce0 (map_of (RefundsByDate min_date max_date db) d)
            in \<lparr> ss_date = d,
                 channel_sales = s,
                 channel_returns = r,
                 actual_channel_sale = (\<lambda>c. s c - r c),
                 overall_sales_WO_hypd = sum_WO_hypd s,
                 overall_returns_WO_hypd = sum_WO_hypd r,
                 actual_overall_sales_WO_hypd = sum_WO_hypd s - sum_WO_hypd r,
                 overall_sales = sum_with_hypd s,
                 overall_returns = rfd,
                 actual_overall_sales = sum_with_hypd s - rfd \<rparr>)
       (AllDates min_date max_date db)"

definition update_sales_summary_incremental :: "date \<Rightarrow> date \<Rightarrow> database \<Rightarrow> database" where
  "update_sales_summary_incremental min_date max_date db =
     db\<lparr> sales_summary :=
            delete_between ss_date min_date max_date (sales_summary db) @
            sales_summary_rows min_date max_date db \<rparr>"

text \<open>The payment conditions of \<^verbatim>\<open>update_order_summary_incremental\<close>.\<close>

definition is_cod :: "order_row \<Rightarrow> bool" where
  "is_cod r =
     (payment_gateway_names r = None \<or> payment_gateway_names r = Some [] \<or>
      null_like (payment_gateway_names r) ''%Cash on Delivery (COD)%'' \<or>
      null_like (payment_gateway_names r) ''%cash_on_delivery%'')"

definition is_prepaid :: "order_row \<Rightarrow> bool" where
  "is_prepaid r =
     (payment_gateway_names r \<noteq> None \<and> payment_gateway_names r \<noteq> Some [] \<and>
      \<not> (null_like (payment_gateway_names r) ''%Cash on Delivery (COD)%'' \<or>
         null_like (payment_gateway_names r) ''%cash_on_delivery%'' \<or>
         null_like (payment_gateway_names r) ''%Gokwik PPCOD%''))"

definition is_partially_paid :: "order_row \<Rightarrow> bool" where
  "is_partially_paid r = null_like (payment_gateway_names r) ''%Gokwik PPCOD%''"

text \<open>
  The rows that the \<^verbatim>\<open>INSERT INTO order_summary ... SELECT\<close> adds: one for each date
  of the two grouped selects, with the counts of a select that has no group for the
  date at zero.
\<close>

definition order_summary_rows :: "date \<Rightarrow> date \<Rightarrow> database \<Rightarrow> order_summary_row list" where
  "order_summary_rows min_date max_date db =
     (let created = created_between min_date max_date (shopify_orders_tbl db);
          returned = returned_between min_date max_date (shopify_orders_update_tbl db)
      in map (\<lambda>d.
                let c = on_date created_date d created;
                    u = on_date updated_date d returned
                in \<lparr> os_date = d,
                     number_of_orders_created = count_distinct_ids (\<lambda>r. True) c,
                     number_of_orders_returned = count_distinct_ids (\<lambda>r. True) u,
                     actual_number_of_orders =
                       count_distinct_ids (\<lambda>r. True) c - count_distinct_ids (\<lambda>r. True) u,
                     os_cod_orders = count_distinct_ids is_cod c - count_distinct_ids is_cod u,
                     os_prepaid_orders =
                       count_distinct_ids is_prepaid c - count_distinct_ids is_prepaid u,
                     os_partially_paid_orders =
                       count_distinct_ids is_partially_paid c -
                       count_distinct_ids is_partially_paid u,
                     overall_cod_orders = count_distinct_ids is_cod c,
                     overall_prepaid_orders = count_distinct_ids is_prepaid c,
                     overall_partially_paid_orders = count_distinct_ids is_partially_paid c \<rparr>)
           (remdups (group_dates created_date created @ group_dates updated_date returned)))"

definition update_order_summary_incremental :: "date \<Rightarrow> date \<Rightarrow> database \<Rightarrow> database" where
  "update_order_summary_incremental min_date max_date db =
     db\<lparr> order_summary :=
            delete_between os_date min_date max_date (order_summary db) @
            order_summary_rows min_date max_date db \<rparr>"

text \<open>The rows that the \<^verbatim>\<open>INSERT INTO discount_summary ... SELECT\<close> adds.\<close>

definition discount_total :: "order_row list \<Rightarrow> rat" where
  "discount_total rows = (\<Sum>r\<leftarrow>rows. coalesce0 (discount_amount r))"

definition discount_summary_rows :: "date \<Rightarrow> date \<Rightarrow> database \<Rightarrow> discount_summary_row list" where
  "discount_summary_rows min_date max_date db =
     (let created = created_between min_date max_date (shopify_orders_tbl db);
          returned = returned_between min_date max_date (shopify_orders_update_tbl db)
      in map (\<lambda>d.
                let dg = discount_total (on_date created_date d created);
                    dr = discount_total (on_date updated_date d returned)
                in \<lparr> ds_date = d, total_discounts_given = dg,
                     total_discount_on_returns = dr, ds_actual_discounts = dg - dr \<rparr>)
           (remdups (group_dates created_date created @ group_dates updated_date returned)))"

definition update_discount_summary_incremental :: "date \<Rightarrow> date \<Rightarrow> database \<Rightarrow> database" where
  "update_discount_summary_incremental min_date max_date db =
     db\<lparr> discount_summary :=
            delete_between ds_date min_date max_date (discount_summary db) @
            discount_summary_rows min_date max_date db \<rparr>"

text \<open>
  The rows that the \<^verbatim>\<open>INSERT INTO gross_summary ... SELECT\<close> adds; the statement
  reads \<^verbatim>\<open>discount_summary\<close> as it stands.
\<close>

definition gross_summary_rows :: "date \<Rightarrow> date \<Rightarrow> database \<Rightarrow> gross_summary_row list" where
  "gross_summary_rows min_date max_date db =
     (let created = created_between min_date max_date (shopify_orders_tbl db)
      in map (\<lambda>d.
                let rows = on_date created_date d created;
                    sale = (\<Sum>r\<leftarrow>rows. of_int (coalesce0 (line_item_quantity r)) *
                                        coalesce0 (line_item_price r));
                    ds = lookup_date ds_date d (discount_summary db)
                in \<lparr> gs_date = d,
                     overall_sale = sale,
                     shipping_total = (\<Sum>r\<leftarrow>rows. coalesce0 (shipping_price r)),
                     discounts_total = coalesce0 (map_option total_discounts_given ds),
                     tax_total = (\<Sum>r\<leftarrow>rows. coalesce0 (total_tax r)),
                     gs_gross_sales = sale * (84 / 100),
                     gs_actual_discounts = coalesce0 (map_option ds_actual_discounts ds),
                     gs_net_sales =
                       sale * (84 / 100) - coalesce0 (map_option ds_actual_discounts ds) \<rparr>)
           (group_dates created_date created))"

definition update_gross_summary_incremental :: "date \<Rightarrow> date \<Rightarrow> database \<Rightarrow> database" where
  "update_gross_summary_incremental min_date max_date db =
     db\<lparr> gross_summary :=
            delete_between gs_date min_date max_date (gross_summary db) @
            gross_summary_rows min_date max_date db \<rparr>"

text \<open>
  The rows that the \<^verbatim>\<open>INSERT INTO hour_wise_sales ... SELECT\<close> adds, one for each
  date and hour with an order.
\<close>

definition hw_is_prepaid :: "order_row \<Rightarrow> bool" where
  "hw_is_prepaid r =
     ((payment_gateway_names r \<noteq> None \<and> payment_gateway_names r \<noteq> Some []) \<and>
      \<not> (null_like (payment_gateway_names r) ''%Cash on Delivery (COD)%'' \<or>
         null_like (payment_gateway_names r) ''%cash_on_delivery%''))"

definition hw_is_cod :: "order_row \<Rightarrow> bool" where
  "hw_is_cod r =
     (null_like (payment_gateway_names r) ''%Cash on Delivery (COD)%'' \<or>
      null_like (payment_gateway_names r) ''%cash_on_delivery%'')"

definition date_hour :: "order_row \<Rightarrow> (date \<times> nat) option" where
  "date_hour r =
     (case (created_date r, created_hour r) of (Some d, Some h) \<Rightarrow> Some (d, h) | _ \<Rightarrow> None)"

definition hour_wise_sales_rows :: "date \<Rightarrow> date \<Rightarrow> database \<Rightarrow> hour_wise_sales_row list" where
  "hour_wise_sales_rows min_date max_date db =
     (let created = filter (\<lambda>r. created_hour r \<noteq> None)
                      (created_between min_date max_date (shopify_orders_tbl db))
      in map (\<lambda>(d, h).
                let rows = filter (\<lambda>r. date_hour r = Some (d, h)) created;
                    ss = find (\<lambda>x. hsess_date x = d \<and> hsess_hour x = h)
                           (hourly_sessions_summary db)
                in \<lparr> hw_date = d, hw_hour = h,
                     number_of_orders = count_distinct_ids (\<lambda>r. True) rows,
                     hw_total_sales = (\<Sum>r\<leftarrow>rows. coalesce0 (total_price r)),
                     number_of_prepaid_orders = count_distinct_ids hw_is_prepaid rows,
                     number_of_cod_orders = count_distinct_ids hw_is_cod rows,
                     hw_number_of_sessions = coalesce0 (map_option hsess_number_of_sessions ss),
                     hw_number_of_atc_sessions =
                       coalesce0 (map_option hsess_number_of_atc_sessions ss) \<rparr>)
           (remdups (List.map_filter date_hour created)))"

definition update_hour_wise_sales_incremental :: "date \<Rightarrow> date \<Rightarrow> database \<Rightarrow> database" where
  "update_hour_wise_sales_incremental min_date max_date db =
     db\<lparr> hour_wise_sales :=
            delete_between hw_date min_date max_date (hour_wise_sales db) @
            hour_wise_sales_rows min_date max_date db \<rparr>"

text \<open>
  The rows that the \<^verbatim>\<open>INSERT INTO overall_summary ... SELECT\<close> adds, one for each row
  of \<^verbatim>\<open>sales_summary\<close> in the range; the other summary tables are joined on their
  key. The second insert of the source (\<^verbatim>\<open>SELECT NULL WHERE FALSE\<close>) adds nothing.
  The columns for adjusted sessions, which the statement names, are part of the tables.
\<close>

definition overall_summary_rows :: "date \<Rightarrow> date \<Rightarrow> database \<Rightarrow> overall_summary_row list" where
  "overall_summary_rows min_date max_date db =
     map (\<lambda>s.
            let d = ss_date s;
                ord = lookup_date os_date d (order_summary db);
                sess = lookup_date sess_date d (sessions_summary db);
                gs = lookup_date gs_date d (gross_summary db);
                ds = lookup_date ds_date d (discount_summary db)
            in \<lparr> ov_date = d,
                 ov_gross_sales = coalesce0 (map_option gs_gross_sales gs),
                 total_discount_amount = coalesce0 (map_option ds_actual_discounts ds),
                 ov_total_sales = actual_overall_sales s,
                 ov_net_sales = coalesce0 (map_option gs_net_sales gs),
                 total_orders = coalesce0 (map_option number_of_orders_created ord),
                 ov_cod_orders = coalesce0 (map_option overall_cod_orders ord),
                 ov_prepaid_orders = coalesce0 (map_option overall_prepaid_orders ord),
                 ov_partially_paid_orders =
                   coalesce0 (map_option overall_partially_paid_orders ord),
                 total_sessions = coalesce0 (map_option sess_number_of_sessions sess),
                 total_atc_sessions = coalesce0 (map_option sess_number_of_atc_sessions sess),
                 adjusted_total_sessions =
                   (case Option.bind sess adjusted_number_of_sessions of
                      Some a \<Rightarrow> a
                    | None \<Rightarrow> coalesce0 (map_option sess_number_of_sessions sess)) \<rparr>)
       (filter (\<lambda>s. between (ss_date s) min_date max_date) (sales_summary db))"

definition update_overall_summary_incremental :: "date \<Rightarrow> date \<Rightarrow> database \<Rightarrow> database" where
  "update_overall_summary_incremental min_date max_date db =
     db\<lparr> overall_summary :=
            delete_between ov_date min_date max_date (overall_summary db) @
            overall_summary_rows min_date max_date db \<rparr>"

text \<open>
  \<^verbatim>\<open>execute_summary_queries_incremental\<close>: nothing is done without both ends of the
  range; otherwise the six tables are brought up to date in the order of the source.
\<close>

definition execute_summary_queries_incremental ::
  "date option \<Rightarrow> date option \<Rightarrow> database \<Rightarrow> database" where
  "execute_summary_queries_incremental min_date max_date db =
     (case (min_date, max_date) of
        (Some mn, Some mx) \<Rightarrow>
          update_overall_summary_incremental mn mx
            (update_hour_wise_sales_incremental mn mx
              (update_gross_summary_incremental mn mx
                (update_discount_summary_incremental mn mx
                  (update_order_summary_incremental mn mx
                    (update_sales_summary_incremental mn mx db)))))
      | _ \<Rightarrow> db)"

section \<open>Data of the scenarios\<close>

text \<open>
  The snapshots of the scenarios: an order cancelled on 2024-01-05 with a total price of
  500, an order with two refunds on 2024-02-10, and a cancelled order whose total price
  is not a number.
\<close>

definition cancelled_order :: snapshot where
  "cancelled_order =
     \<lparr> snap_id = Some 1001,
       snap_created_at = Some ''2024-01-02T09:00:00+05:30'',
       snap_updated_at = Some ''2024-01-05T15:30:00+05:30'',
       snap_cancelled_at = Some ''2024-01-05T10:00:00Z'',
       snap_total_price = PStr ''500.00'',
       snap_refunds = [] \<rparr>"

definition refunded_order :: snapshot where
  "refunded_order =
     \<lparr> snap_id = Some 1002,
       snap_created_at = Some ''2024-02-01T11:00:00+05:30'',
       snap_updated_at = Some ''2024-02-10T17:45:00+05:30'',
       snap_cancelled_at = None,
       snap_total_price = PStr ''999.00'',
       snap_refunds =
         [\<lparr> refund_created_at = Some ''2024-02-10T09:15:00+05:30'',
             refund_transactions = [\<lparr> txn_kind = Some ''refund'', txn_amount = PStr ''-150.00'' \<rparr>] \<rparr>,
          \<lparr> refund_created_at = Some ''2024-02-10T17:40:00+05:30'',
             refund_transactions = [\<lparr> txn_kind = Some ''refund'', txn_amount = PStr ''-50.00'' \<rparr>] \<rparr>] \<rparr>"

definition malformed_price_order :: snapshot where
  "malformed_price_order =
     \<lparr> snap_id = Some 1003,
       snap_created_at = Some ''2024-01-04T12:00:00+05:30'',
       snap_updated_at = Some ''2024-01-05T15:30:00+05:30'',
       snap_cancelled_at = Some ''2024-01-05T10:00:00Z'',
       snap_total_price = PStr ''N/A'',
       snap_refunds = [] \<rparr>"

text \<open>
  A small store for the range 2024-03-01 to 2024-03-03: orders created on four days,
  one of them refunded on 2024-03-02 and updated to the status \<^verbatim>\<open>refunded\<close>, and
  summary rows left by earlier runs.
\<close>

definition order_created_on :: "date \<Rightarrow> string \<Rightarrow> order_row" where
  "order_created_on d oid =
     \<lparr> created_date = Some d, created_hour = Some 10, updated_date = Some d,
       order_id = Some oid, order_app_name = Some ''GoKwik'', total_price = Some 100,
       financial_status = Some ''paid'', payment_gateway_names = Some ''Razorpay'',
       discount_amount = None, line_item_quantity = Some 1, line_item_price = Some 100,
       shipping_price = None, total_tax = None \<rparr>"

definition stale_sales_row :: "date \<Rightarrow> sales_summary_row" where
  "stale_sales_row d =
     \<lparr> ss_date = d, channel_sales = (\<lambda>c. 0), channel_returns = (\<lambda>c. 0),
       actual_channel_sale = (\<lambda>c. 0), overall_sales_WO_hypd = 0,
       overall_returns_WO_hypd = 0, actual_overall_sales_WO_hypd = 0, overall_sales = 0,
       overall_returns = 999, actual_overall_sales = 0 \<rparr>"

definition march_db :: database where
  "march_db =
     \<lparr> shopify_orders_tbl =
         [order_created_on (2024, 2, 28) ''1'', order_created_on (2024, 3, 1) ''2'',
          order_created_on (2024, 3, 2) ''3'', order_created_on (2024, 3, 4) ''4''],
       shopify_orders_update_tbl =
         [(order_created_on (2024, 3, 1) ''2'')
            \<lparr> updated_date := Some (2024, 3, 2), financial_status := Some ''refunded'' \<rparr>],
       returns_fact =
         [\<lparr> fact_order_id = 2, event_date = (2024, 3, 2), event_type = REFUND, amount = 40 \<rparr>,
          \<lparr> fact_order_id = 5, event_date = (2024, 3, 2), event_type = CANCEL, amount = 70 \<rparr>],
       sessions_summary = [],
       hourly_sessions_summary = [],
       sales_summary =
         [stale_sales_row (2024, 2, 28), stale_sales_row (2024, 3, 1),
          stale_sales_row (2024, 3, 4)],
       order_summary = [],
       discount_summary = [],
       gross_summary = [],
       hour_wise_sales = [],
       overall_summary = [] \<rparr>"

section \<open>The affected date range spans every date a snapshot implies\<close>










section \<open>Reconciling the same batch again changes nothing\<close>

lemma fact_key_amount_update [simp]: "fact_key (x\<lparr>amount := v\<rparr>) = fact_key x"
  by (simp add: fact_key_def)

lemma amount_at_upsert_row:
  "amount_at k (upsert_row r tbl) = (if fact_key r = k then Some (amount r) else amount_at k tbl)"
  by (induction tbl) (auto simp: amount_at_def)

lemma upsert_row_same:
  "amount_at (fact_key r) tbl = Some (amount r) \<Longrightarrow> upsert_row r tbl = tbl"
  by (induction tbl) (auto simp: amount_at_def)

lemma amount_at_executemany_other:
  "k \<notin> fact_key ` set rows \<Longrightarrow> amount_at k (executemany rows tbl) = amount_at k tbl"
  by (induction rows arbitrary: tbl) (auto simp: amount_at_upsert_row)

lemma amount_at_executemany:
  "distinct (map fact_key rows) \<Longrightarrow> r \<in> set rows \<Longrightarrow>
     amount_at (fact_key r) (executemany rows tbl) = Some (amount r)"
proof (induction rows arbitrary: tbl)
  case Nil
  then show ?case by simp
next
  case (Cons x rows)
  show ?case
  proof (cases "r = x")
    case True
    with Cons.prems have "fact_key r \<notin> fact_key ` set rows" by auto
    then show ?thesis
      using True by (simp add: amount_at_executemany_other amount_at_upsert_row)
  next
    case False
    with Cons show ?thesis by auto
  qed
qed

lemma executemany_same:
  "\<forall>r\<in>set rows. amount_at (fact_key r) tbl = Some (amount r) \<Longrightarrow> executemany rows tbl = tbl"
  by (induction rows arbitrary: tbl) (auto simp: upsert_row_same)

lemma executemany_twice:
  assumes "distinct (map fact_key rows)"
  shows "executemany rows (executemany rows tbl) = executemany rows tbl"
  by (rule executemany_same) (simp add: amount_at_executemany [OF assms])

lemma distinct_refunds_loop:
  "distinct (map fst a) \<Longrightarrow> distinct (map fst (refunds_loop oid rfs a))"
  by (induction rfs arbitrary: a) (simp_all add: distinct_update Let_def split: option.splits)

lemma distinct_cancel_step:
  "distinct (map fst a) \<Longrightarrow> cancel_step oid s a = Inr a' \<Longrightarrow> distinct (map fst a')"
  by (auto simp: cancel_step_def distinct_update split: option.splits sum.splits)

lemma distinct_orders_loop:
  "distinct (map fst a) \<Longrightarrow> orders_loop ss a = Inr a' \<Longrightarrow> distinct (map fst a')"
proof (induction ss arbitrary: a)
  case Nil
  then show ?case by simp
next
  case (Cons s ss)
  show ?case
  proof (cases "snap_id s")
    case None
    with Cons show ?thesis by simp
  next
    case (Some i)
    show ?thesis
    proof (cases "i = 0")
      case True
      with Some Cons show ?thesis by simp
    next
      case False
      with Some Cons.prems obtain a1 where
        c: "cancel_step i s a = Inr a1" and
        l: "orders_loop ss (refunds_loop i (snap_refunds s) a1) = Inr a'"
        by (auto split: sum.splits)
      from c Cons.prems(1) have "distinct (map fst a1)"
        by (rule distinct_cancel_step [rotated])
      then have "distinct (map fst (refunds_loop i (snap_refunds s) a1))"
        by (rule distinct_refunds_loop)
      then show ?thesis using l by (rule Cons.IH)
    qed
  qed
qed

lemma map_fact_key_fact_rows: "map fact_key (fact_rows a) = map fst a"
  by (induction a) (auto simp: fact_rows_def fact_key_def)

text \<open>
  Claim C5. Running the reconciler a second time on the same batch leaves
  \<^verbatim>\<open>returns_fact\<close> as the first run left it: the rows derived from the batch are
  the same, and each overwrites the stored row of its key with the amount that row
  already has.
\<close>

theorem reconciler_idempotent:
  "returns_fact_after orders_list (returns_fact_after orders_list tbl) =
     returns_fact_after orders_list tbl"
proof (cases "orders_loop orders_list []")
  case (Inl e)
  then show ?thesis
    by (simp add: returns_fact_after_def upsert_returns_fact_from_orders_def)
next
  case (Inr a)
  have "distinct (map fst a)"
    by (rule distinct_orders_loop [OF _ Inr]) simp
  then have "distinct (map fact_key (fact_rows a))"
    by (simp only: map_fact_key_fact_rows)
  then have "executemany (fact_rows a) (executemany (fact_rows a) tbl) = executemany (fact_rows a) tbl"
    by (rule executemany_twice)
  then show ?thesis
    using Inr
    by (simp add: returns_fact_after_def upsert_returns_fact_from_orders_def)
qed

section \<open>The cancellation fact of a snapshot\<close>



lemma cancel_prices_Nil [simp]: "cancel_prices i d [] = []"
  by (simp add: cancel_prices_def List.map_filter_def)




lemma map_of_cancel_step_other:
  assumes "cancel_step j s a = Inr a1"
    and "\<not> (j = i \<and> parse_iso_to_ist_date (snap_cancelled_at s) = Some d)"
  shows "map_of a1 (i, CANCEL, d) = map_of a (i, CANCEL, d)"
  using assms
  by (auto simp: cancel_step_def update_conv' split: option.splits sum.splits)














lemmas parse_eval =
  parse_iso_to_ist_date_def replace_Z_def fromisoformat_def nat_of_digits_def digit_val_def
  valid_date_def days_in_month_def is_leap_def astimezone_ist_date_def add_days_def
  ist_offset_def next_day_def prev_day_def

lemma date_of_cancelled_order:
  "parse_iso_to_ist_date (snap_cancelled_at cancelled_order) = Some (2024, 1, 5)"
  by (simp add: cancelled_order_def parse_eval)




section \<open>The refund facts of a snapshot\<close>




lemma day_refund_total_Nil [simp]: "day_refund_total d [] = 0"
  by (simp add: day_refund_total_def)








lemma parse_iso_None: "parse_iso_to_ist_date None = None"
  by (simp add: parse_iso_to_ist_date_def)

lemma date_of_first_refund:
  "parse_iso_to_ist_date (Some ''2024-02-10T09:15:00+05:30'') = Some (2024, 2, 10)"
  by (simp add: parse_eval)

lemma date_of_second_refund:
  "parse_iso_to_ist_date (Some ''2024-02-10T17:40:00+05:30'') = Some (2024, 2, 10)"
  by (simp add: parse_eval)

lemma kind_refund: "is_return_kind \<lparr> txn_kind = Some ''refund'', txn_amount = x \<rparr>"
  by (simp add: is_return_kind_def lower_def lower_char_def)

lemma float_minus_150: "float_of_string ''-150.00'' = Some (- 150)"
  by code_simp

lemma float_minus_50: "float_of_string ''-50.00'' = Some (- 50)"
  by code_simp

lemma float_malformed: "float_of_string ''N/A'' = None"
  by code_simp


lemma run_refunded_order:
  "orders_loop (refunded_order # ss) [] =
     orders_loop ss [((1002, REFUND, (2024, 2, 10)), 200)]"
  by (simp add: refunded_order_def cancel_step_def parse_iso_None
      date_of_first_refund date_of_second_refund kind_refund float_minus_150 float_minus_50
      agg_get_def)


section \<open>The affected range of the two scenario orders\<close>




section \<open>A malformed total price ends the whole batch\<close>

lemma refunds_never_raise:
  assumes "\<forall>s\<in>set ss. snap_cancelled_at s = None"
  shows "\<exists>a'. orders_loop ss a = Inr a'"
  using assms
proof (induction ss arbitrary: a)
  case Nil
  then show ?case by simp
next
  case (Cons s ss)
  then have "cancel_step j s b = Inr b" for j b
    by (simp add: cancel_step_def parse_iso_None)
  with Cons show ?case
    by (cases "snap_id s") simp_all
qed

text \<open>
  Claim C7. A malformed refund amount is passed over (\<open>refunds_never_raise\<close>), but a
  malformed total price of a cancelled snapshot is not: the batch below holds a
  well-formed refund snapshot followed by a cancelled snapshot whose total price is the
  text \<^verbatim>\<open>N/A\<close>; the call raises ValueError and stores no fact at all, not even the
  refund fact of the first snapshot.
\<close>

theorem malformed_total_price_aborts_batch:
  "upsert_returns_fact_from_orders [refunded_order, malformed_price_order] tbl = Inl ValueError \<and>
   returns_fact_after [refunded_order, malformed_price_order] tbl = tbl"
proof -
  have id: "snap_id malformed_price_order = Some 1003"
    by (simp add: malformed_price_order_def)
  have "cancel_step 1003 malformed_price_order a = Inl ValueError" for a
    using date_of_cancelled_order
    by (simp add: cancel_step_def malformed_price_order_def cancelled_order_def float_malformed)
  then have "orders_loop [malformed_price_order] a = Inl ValueError" for a
    by (simp add: id)
  then have "orders_loop [refunded_order, malformed_price_order] [] = Inl ValueError"
    by (simp only: run_refunded_order)
  then show ?thesis
    by (simp add: upsert_returns_fact_from_orders_def returns_fact_after_def)
qed

section \<open>The fetch window starts after the last stored timestamp\<close>



section \<open>A failed boundary lookup lets duplicates through\<close>

text \<open>
  Claim C10. When the lookup of the order ids stored at the last timestamp fails with a
  database error, it yields the empty set and does not raise; the duplicate filter then
  keeps every fetched record, so a record already stored at that timestamp goes on to
  be stored again (\<open>successful_lookup_drops_boundary_records\<close> is the behaviour when
  the lookup works).
\<close>

theorem failed_lookup_keeps_boundary_records:
  assumes "cursor last_ts = Raises_mysql_Error"
  shows "get_orders_with_same_timestamp cursor last_ts = {} \<and>
         filter_duplicates (get_orders_with_same_timestamp cursor last_ts) fetched = fetched"
  using assms by (simp add: get_orders_with_same_timestamp_def filter_duplicates_def)

lemma successful_lookup_drops_boundary_records:
  assumes "cursor last_ts = Rows ids" and "str_id (snap_id s) \<in> set ids"
  shows "s \<notin> set (filter_duplicates (get_orders_with_same_timestamp cursor last_ts) fetched)"
  using assms by (auto simp: get_orders_with_same_timestamp_def filter_duplicates_def)

lemma str_id_1001: "str_id (Some 1001) = ''1001''"
  by code_simp

theorem failed_lookup_keeps_boundary_records_witness:
  "filter_duplicates (get_orders_with_same_timestamp (\<lambda>t. Raises_mysql_Error) 63840000000)
     [cancelled_order, refunded_order] = [cancelled_order, refunded_order] \<and>
   filter_duplicates (get_orders_with_same_timestamp (\<lambda>t. Rows [''1001'']) 63840000000)
     [cancelled_order, refunded_order] = [refunded_order]"
proof -
  have "filter_duplicates (get_orders_with_same_timestamp (\<lambda>t. Raises_mysql_Error) 63840000000)
     [cancelled_order, refunded_order] = [cancelled_order, refunded_order]"
    using failed_lookup_keeps_boundary_records
            [of "\<lambda>t. Raises_mysql_Error" 63840000000 "[cancelled_order, refunded_order]"]
    by blast
  moreover have "str_id (snap_id cancelled_order) = ''1001''"
    by (simp add: cancelled_order_def str_id_1001)
  moreover have "str_id (snap_id refunded_order) \<noteq> ''1001''"
    unfolding refunded_order_def by code_simp
  ultimately show ?thesis
    by (simp add: get_orders_with_same_timestamp_def filter_duplicates_def)
qed

section \<open>The fetcher returns the pages it has when the upstream fails\<close>










section \<open>Summary rows are recomputed inside the range and nowhere else\<close>






lemma set_RefundsByDate:
  "fst ` set (RefundsByDate min_date max_date db) =
     {d. between d min_date max_date \<and>
         (\<exists>f\<in>set (returns_fact db). event_type f = REFUND \<and> event_date f = d)}"
proof -
  have "fst ` set (RefundsByDate min_date max_date db) =
        event_date ` {f \<in> set (returns_fact db).
                       event_type f = REFUND \<and> between (event_date f) min_date max_date}"
    by (simp add: RefundsByDate_def Let_def image_image)
  also have "\<dots> = {d. between d min_date max_date \<and>
         (\<exists>f\<in>set (returns_fact db). event_type f = REFUND \<and> event_date f = d)}"
    by blast
  finally show ?thesis .
qed


lemma map_ss_date_rows:
  "map ss_date (sales_summary_rows min_date max_date db) = AllDates min_date max_date db"
  by (simp add: sales_summary_rows_def Let_def comp_def)










lemma sales_summary_rows_cong:
  assumes "shopify_orders_tbl a = shopify_orders_tbl b"
    and "shopify_orders_update_tbl a = shopify_orders_update_tbl b"
    and "returns_fact a = returns_fact b"
  shows "sales_summary_rows mn mx a = sales_summary_rows mn mx b"
  using assms
  by (simp add: sales_summary_rows_def AllDates_def SalesData_def ReturnsData_def
      RefundsByDate_def)

lemma order_summary_rows_cong:
  assumes "shopify_orders_tbl a = shopify_orders_tbl b"
    and "shopify_orders_update_tbl a = shopify_orders_update_tbl b"
  shows "order_summary_rows mn mx a = order_summary_rows mn mx b"
  using assms by (simp add: order_summary_rows_def)

lemma discount_summary_rows_cong:
  assumes "shopify_orders_tbl a = shopify_orders_tbl b"
    and "shopify_orders_update_tbl a = shopify_orders_update_tbl b"
  shows "discount_summary_rows mn mx a = discount_summary_rows mn mx b"
  using assms by (simp add: discount_summary_rows_def)

lemma gross_summary_rows_cong:
  assumes "shopify_orders_tbl a = shopify_orders_tbl b"
    and "discount_summary a = discount_summary b"
  shows "gross_summary_rows mn mx a = gross_summary_rows mn mx b"
  using assms by (simp add: gross_summary_rows_def)

lemma hour_wise_sales_rows_cong:
  assumes "shopify_orders_tbl a = shopify_orders_tbl b"
    and "hourly_sessions_summary a = hourly_sessions_summary b"
  shows "hour_wise_sales_rows mn mx a = hour_wise_sales_rows mn mx b"
  using assms by (simp add: hour_wise_sales_rows_def)

lemma overall_summary_rows_cong:
  assumes "sales_summary a = sales_summary b" and "order_summary a = order_summary b"
    and "sessions_summary a = sessions_summary b" and "gross_summary a = gross_summary b"
    and "discount_summary a = discount_summary b"
  shows "overall_summary_rows mn mx a = overall_summary_rows mn mx b"
  using assms by (simp add: overall_summary_rows_def)

lemma update_sales_summary_incremental_fields:
  shows "shopify_orders_tbl (update_sales_summary_incremental mn mx db) = shopify_orders_tbl db"
    and "shopify_orders_update_tbl (update_sales_summary_incremental mn mx db) = shopify_orders_update_tbl db"
    and "returns_fact (update_sales_summary_incremental mn mx db) = returns_fact db"
    and "sessions_summary (update_sales_summary_incremental mn mx db) = sessions_summary db"
    and "hourly_sessions_summary (update_sales_summary_incremental mn mx db) = hourly_sessions_summary db"
    and "sales_summary (update_sales_summary_incremental mn mx db) =
       delete_between ss_date mn mx (sales_summary db) @ sales_summary_rows mn mx db"
    and "order_summary (update_sales_summary_incremental mn mx db) = order_summary db"
    and "discount_summary (update_sales_summary_incremental mn mx db) = discount_summary db"
    and "gross_summary (update_sales_summary_incremental mn mx db) = gross_summary db"
    and "hour_wise_sales (update_sales_summary_incremental mn mx db) = hour_wise_sales db"
    and "overall_summary (update_sales_summary_incremental mn mx db) = overall_summary db"
  by (simp_all add: update_sales_summary_incremental_def)

lemma update_order_summary_incremental_fields:
  shows "shopify_orders_tbl (update_order_summary_incremental mn mx db) = shopify_orders_tbl db"
    and "shopify_orders_update_tbl (update_order_summary_incremental mn mx db) = shopify_orders_update_tbl db"
    and "returns_fact (update_order_summary_incremental mn mx db) = returns_fact db"
    and "sessions_summary (update_order_summary_incremental mn mx db) = sessions_summary db"
    and "hourly_sessions_summary (update_order_summary_incremental mn mx db) = hourly_sessions_summary db"
    and "sales_summary (update_order_summary_incremental mn mx db) = sales_summary db"
    and "order_summary (update_order_summary_incremental mn mx db) =
       delete_between os_date mn mx (order_summary db) @ order_summary_rows mn mx db"
    and "discount_summary (update_order_summary_incremental mn mx db) = discount_summary db"
    and "gross_summary (update_order_summary_incremental mn mx db) = gross_summary db"
    and "hour_wise_sales (update_order_summary_incremental mn mx db) = hour_wise_sales db"
    and "overall_summary (update_order_summary_incremental mn mx db) = overall_summary db"
  by (simp_all add: update_order_summary_incremental_def)

lemma update_discount_summary_incremental_fields:
  shows "shopify_orders_tbl (update_discount_summary_incremental mn mx db) = shopify_orders_tbl db"
    and "shopify_orders_update_tbl (update_discount_summary_incremental mn mx db) = shopify_orders_update_tbl db"
    and "returns_fact (update_discount_summary_incremental mn mx db) = returns_fact db"
    and "sessions_summary (update_discount_summary_incremental mn mx db) = sessions_summary db"
    and "hourly_sessions_summary (update_discount_summary_incremental mn mx db) = hourly_sessions_summary db"
    and "sales_summary (update_discount_summary_incremental mn mx db) = sales_summary db"
    and "order_summary (update_discount_summary_incremental mn mx db) = order_summary db"
    and "discount_summary (update_discount_summary_incremental mn mx db) =
       delete_between ds_date mn mx (discount_summary db) @ discount_summary_rows mn mx db"
    and "gross_summary (update_discount_summary_incremental mn mx db) = gross_summary db"
    and "hour_wise_sales (update_discount_summary_incremental mn mx db) = hour_wise_sales db"
    and "overall_summary (update_discount_summary_incremental mn mx db) = overall_summary db"
  by (simp_all add: update_discount_summary_incremental_def)

lemma update_gross_summary_incremental_fields:
  shows "shopify_orders_tbl (update_gross_summary_incremental mn mx db) = shopify_orders_tbl db"
    and "shopify_orders_update_tbl (update_gross_summary_incremental mn mx db) = shopify_orders_update_tbl db"
    and "returns_fact (update_gross_summary_incremental mn mx db) = returns_fact db"
    and "sessions_summary (update_gross_summary_incremental mn mx db) = sessions_summary db"
    and "hourly_sessions_summary (update_gross_summary_incremental mn mx db) = hourly_sessions_summary db"
    and "sales_summary (update_gross_summary_incremental mn mx db) = sales_summary db"
    and "order_summary (update_gross_summary_incremental mn mx db) = order_summary db"
    and "discount_summary (update_gross_summary_incremental mn mx db) = discount_summary db"
    and "gross_summary (update_gross_summary_incremental mn mx db) =
       delete_between gs_date mn mx (gross_summary db) @ gross_summary_rows mn mx db"
    and "hour_wise_sales (update_gross_summary_incremental mn mx db) = hour_wise_sales db"
    and "overall_summary (update_gross_summary_incremental mn mx db) = overall_summary db"
  by (simp_all add: update_gross_summary_incremental_def)

lemma update_hour_wise_sales_incremental_fields:
  shows "shopify_orders_tbl (update_hour_wise_sales_incremental mn mx db) = shopify_orders_tbl db"
    and "shopify_orders_update_tbl (update_hour_wise_sales_incremental mn mx db) = shopify_orders_update_tbl db"
    and "returns_fact (update_hour_wise_sales_incremental mn mx db) = returns_fact db"
    and "sessions_summary (update_hour_wise_sales_incremental mn mx db) = sessions_summary db"
    and "hourly_sessions_summary (update_hour_wise_sales_incremental mn mx db) = hourly_sessions_summary db"
    and "sales_summary (update_hour_wise_sales_incremental mn mx db) = sales_summary db"
    and "order_summary (update_hour_wise_sales_incremental mn mx db) = order_summary db"
    and "discount_summary (update_hour_wise_sales_incremental mn mx db) = discount_summary db"
    and "gross_summary (update_hour_wise_sales_incremental mn mx db) = gross_summary db"
    and "hour_wise_sales (update_hour_wise_sales_incremental mn mx db) =
       delete_between hw_date mn mx (hour_wise_sales db) @ hour_wise_sales_rows mn mx db"
    and "overall_summary (update_hour_wise_sales_incremental mn mx db) = overall_summary db"
  by (simp_all add: update_hour_wise_sales_incremental_def)

lemma update_overall_summary_incremental_fields:
  shows "shopify_orders_tbl (update_overall_summary_incremental mn mx db) = shopify_orders_tbl db"
    and "shopify_orders_update_tbl (update_overall_summary_incremental mn mx db) = shopify_orders_update_tbl db"
    and "returns_fact (update_overall_summary_incremental mn mx db) = returns_fact db"
    and "sessions_summary (update_overall_summary_incremental mn mx db) = sessions_summary db"
    and "hourly_sessions_summary (update_overall_summary_incremental mn mx db) = hourly_sessions_summary db"
    and "sales_summary (update_overall_summary_incremental mn mx db) = sales_summary db"
    and "order_summary (update_overall_summary_incremental mn mx db) = order_summary db"
    and "discount_summary (update_overall_summary_incremental mn mx db) = discount_summary db"
    and "gross_summary (update_overall_summary_incremental mn mx db) = gross_summary db"
    and "hour_wise_sales (update_overall_summary_incremental mn mx db) = hour_wise_sales db"
    and "overall_summary (update_overall_summary_incremental mn mx db) =
       delete_between ov_date mn mx (overall_summary db) @ overall_summary_rows mn mx db"
  by (simp_all add: update_overall_summary_incremental_def)

lemmas update_fields =
  update_sales_summary_incremental_fields
  update_order_summary_incremental_fields
  update_discount_summary_incremental_fields
  update_gross_summary_incremental_fields
  update_hour_wise_sales_incremental_fields
  update_overall_summary_incremental_fields

lemma sales_summary_rows_kept:
  shows "sales_summary_rows mn mx (update_sales_summary_incremental a b db) = sales_summary_rows mn mx db"
    and "sales_summary_rows mn mx (update_order_summary_incremental a b db) = sales_summary_rows mn mx db"
    and "sales_summary_rows mn mx (update_discount_summary_incremental a b db) = sales_summary_rows mn mx db"
    and "sales_summary_rows mn mx (update_gross_summary_incremental a b db) = sales_summary_rows mn mx db"
    and "sales_summary_rows mn mx (update_hour_wise_sales_incremental a b db) = sales_summary_rows mn mx db"
    and "sales_summary_rows mn mx (update_overall_summary_incremental a b db) = sales_summary_rows mn mx db"
  by (rule sales_summary_rows_cong; simp add: update_fields)+

lemma order_summary_rows_kept:
  shows "order_summary_rows mn mx (update_sales_summary_incremental a b db) = order_summary_rows mn mx db"
    and "order_summary_rows mn mx (update_order_summary_incremental a b db) = order_summary_rows mn mx db"
    and "order_summary_rows mn mx (update_discount_summary_incremental a b db) = order_summary_rows mn mx db"
    and "order_summary_rows mn mx (update_gross_summary_incremental a b db) = order_summary_rows mn mx db"
    and "order_summary_rows mn mx (update_hour_wise_sales_incremental a b db) = order_summary_rows mn mx db"
    and "order_summary_rows mn mx (update_overall_summary_incremental a b db) = order_summary_rows mn mx db"
  by (rule order_summary_rows_cong; simp add: update_fields)+

lemma discount_summary_rows_kept:
  shows "discount_summary_rows mn mx (update_sales_summary_incremental a b db) = discount_summary_rows mn mx db"
    and "discount_summary_rows mn mx (update_order_summary_incremental a b db) = discount_summary_rows mn mx db"
    and "discount_summary_rows mn mx (update_discount_summary_incremental a b db) = discount_summary_rows mn mx db"
    and "discount_summary_rows mn mx (update_gross_summary_incremental a b db) = discount_summary_rows mn mx db"
    and "discount_summary_rows mn mx (update_hour_wise_sales_incremental a b db) = discount_summary_rows mn mx db"
    and "discount_summary_rows mn mx (update_overall_summary_incremental a b db) = discount_summary_rows mn mx db"
  by (rule discount_summary_rows_cong; simp add: update_fields)+

lemma gross_summary_rows_kept:
  shows "gross_summary_rows mn mx (update_sales_summary_incremental a b db) = gross_summary_rows mn mx db"
    and "gross_summary_rows mn mx (update_order_summary_incremental a b db) = gross_summary_rows mn mx db"
    and "gross_summary_rows mn mx (update_gross_summary_incremental a b db) = gross_summary_rows mn mx db"
    and "gross_summary_rows mn mx (update_hour_wise_sales_incremental a b db) = gross_summary_rows mn mx db"
    and "gross_summary_rows mn mx (update_overall_summary_incremental a b db) = gross_summary_rows mn mx db"
  by (rule gross_summary_rows_cong; simp add: update_fields)+

lemma hour_wise_sales_rows_kept:
  shows "hour_wise_sales_rows mn mx (update_sales_summary_incremental a b db) = hour_wise_sales_rows mn mx db"
    and "hour_wise_sales_rows mn mx (update_order_summary_incremental a b db) = hour_wise_sales_rows mn mx db"
    and "hour_wise_sales_rows mn mx (update_discount_summary_incremental a b db) = hour_wise_sales_rows mn mx db"
    and "hour_wise_sales_rows mn mx (update_gross_summary_incremental a b db) = hour_wise_sales_rows mn mx db"
    and "hour_wise_sales_rows mn mx (update_hour_wise_sales_incremental a b db) = hour_wise_sales_rows mn mx db"
    and "hour_wise_sales_rows mn mx (update_overall_summary_incremental a b db) = hour_wise_sales_rows mn mx db"
  by (rule hour_wise_sales_rows_cong; simp add: update_fields)+

lemma overall_summary_rows_kept:
  shows "overall_summary_rows mn mx (update_hour_wise_sales_incremental a b db) = overall_summary_rows mn mx db"
    and "overall_summary_rows mn mx (update_overall_summary_incremental a b db) = overall_summary_rows mn mx db"
  by (rule overall_summary_rows_cong; simp add: update_fields)+

lemmas rows_kept =
  sales_summary_rows_kept
  order_summary_rows_kept
  discount_summary_rows_kept
  gross_summary_rows_kept
  hour_wise_sales_rows_kept
  overall_summary_rows_kept

lemma execute_sales_summary:
  "sales_summary (execute_summary_queries_incremental (Some mn) (Some mx) db) =
     delete_between ss_date mn mx (sales_summary db) @
     sales_summary_rows mn mx (execute_summary_queries_incremental (Some mn) (Some mx) db)"
  by (simp add: execute_summary_queries_incremental_def update_fields rows_kept)






lemma execute_sources_unchanged:
  shows "shopify_orders_tbl (execute_summary_queries_incremental min_date max_date db) = shopify_orders_tbl db"
    and "shopify_orders_update_tbl (execute_summary_queries_incremental min_date max_date db) = shopify_orders_update_tbl db"
    and "returns_fact (execute_summary_queries_incremental min_date max_date db) = returns_fact db"
    and "sessions_summary (execute_summary_queries_incremental min_date max_date db) = sessions_summary db"
    and "hourly_sessions_summary (execute_summary_queries_incremental min_date max_date db) = hourly_sessions_summary db"
  by (simp_all add: execute_summary_queries_incremental_def update_fields split: option.splits)




section \<open>Overall returns come from the refund facts alone\<close>

lemma refunds_of_date:
  assumes "between d min_date max_date"
  shows "coalesce0 (map_of (RefundsByDate min_date max_date db) d) =
           (\<Sum>f\<leftarrow>filter (\<lambda>f. event_type f = REFUND \<and> event_date f = d) (returns_fact db).
              amount f)"
proof -
  let ?rows = "filter (\<lambda>f. event_type f = REFUND \<and> between (event_date f) min_date max_date)
                 (returns_fact db)"
  let ?g = "\<lambda>d. \<Sum>f\<leftarrow>filter (\<lambda>f. event_date f = d) ?rows. amount f"
  have same: "filter (\<lambda>f. event_date f = d) ?rows =
              filter (\<lambda>f. event_type f = REFUND \<and> event_date f = d) (returns_fact db)"
    using assms by (auto simp: filter_filter intro: filter_cong)
  show ?thesis
  proof (cases "d \<in> event_date ` set ?rows")
    case True
    then have "map_of (RefundsByDate min_date max_date db) d = Some (?g d)"
      by (simp add: RefundsByDate_def Let_def map_of_map_restrict)
    then have "map_of (RefundsByDate min_date max_date db) d =
        Some (\<Sum>f\<leftarrow>filter (\<lambda>f. event_type f = REFUND \<and> event_date f = d) (returns_fact db).
                amount f)"
      by (simp only: same)
    then show ?thesis by (simp add: coalesce0_def)
  next
    case False
    then have "map_of (RefundsByDate min_date max_date db) d = None"
      by (simp add: RefundsByDate_def Let_def map_of_map_restrict)
    moreover from False have "filter (\<lambda>f. event_date f = d) ?rows = []"
      unfolding filter_empty_conv by blast
    with same have "filter (\<lambda>f. event_type f = REFUND \<and> event_date f = d) (returns_fact db) = []"
      by simp
    ultimately show ?thesis by (simp add: coalesce0_def)
  qed
qed

lemma overall_returns_of_row:
  "r \<in> set (sales_summary_rows min_date max_date db) \<Longrightarrow>
     overall_returns r = coalesce0 (map_of (RefundsByDate min_date max_date db) (ss_date r))"
  by (auto simp: sales_summary_rows_def Let_def)

lemma distinct_sales_summary_rows:
  "distinct (map ss_date (sales_summary_rows min_date max_date db))"
  by (simp add: map_ss_date_rows AllDates_def)

lemma filter_key_length:
  "distinct (map f xs) \<Longrightarrow> length (filter (\<lambda>x. f x = y) xs) \<le> 1"
proof (induction xs)
  case Nil
  then show ?case by simp
next
  case (Cons x xs)
  show ?case
  proof (cases "f x = y")
    case True
    from Cons.prems have "f x \<notin> f ` set xs" by simp
    with True have "\<forall>z\<in>set xs. f z \<noteq> y" by blast
    then have "filter (\<lambda>x. f x = y) xs = []" by (simp add: filter_empty_conv)
    with True show ?thesis by simp
  next
    case False
    with Cons show ?thesis by simp
  qed
qed

lemma rows_of_date_after_run:
  assumes "between d min_date max_date"
  shows "filter (\<lambda>r. ss_date r = d)
           (sales_summary (execute_summary_queries_incremental (Some min_date) (Some max_date) db)) =
         filter (\<lambda>r. ss_date r = d) (sales_summary_rows min_date max_date db)"
proof -
  have "filter (\<lambda>r. ss_date r = d) (delete_between ss_date min_date max_date (sales_summary db)) = []"
    using assms by (auto simp: delete_between_def filter_empty_conv)
  moreover have "sales_summary_rows min_date max_date
                   (execute_summary_queries_incremental (Some min_date) (Some max_date) db) =
                 sales_summary_rows min_date max_date db"
    by (rule sales_summary_rows_cong) (rule execute_sources_unchanged)+
  ultimately show ?thesis
    by (simp add: execute_sales_summary)
qed

text \<open>
  Claim C1. After a run for a range that contains the date \<open>d\<close>, every row of
  \<^verbatim>\<open>sales_summary\<close> for \<open>d\<close> has as \<^verbatim>\<open>overall_returns\<close> the sum of the amounts
  of the rows of \<^verbatim>\<open>returns_fact\<close> with event type REFUND and event date \<open>d\<close> (zero
  when there is none); there is at most one such row, and there is one whenever a
  REFUND fact has the date \<open>d\<close>. No column of the order tables enters the value.
\<close>

theorem overall_returns_is_refund_total:
  assumes "db' = execute_summary_queries_incremental (Some min_date) (Some max_date) db"
    and "between d min_date max_date"
  shows "(\<forall>r\<in>set (sales_summary db'). ss_date r = d \<longrightarrow>
            overall_returns r =
              (\<Sum>f\<leftarrow>filter (\<lambda>f. event_type f = REFUND \<and> event_date f = d) (returns_fact db').
                 amount f)) \<and>
         length (filter (\<lambda>r. ss_date r = d) (sales_summary db')) \<le> 1 \<and>
         ((\<exists>f\<in>set (returns_fact db'). event_type f = REFUND \<and> event_date f = d) \<longrightarrow>
            (\<exists>r\<in>set (sales_summary db'). ss_date r = d))"
proof -
  let ?rows = "sales_summary_rows min_date max_date db"
  have facts: "returns_fact db' = returns_fact db"
    unfolding assms(1) by (rule execute_sources_unchanged)
  have at_d: "filter (\<lambda>r. ss_date r = d) (sales_summary db') = filter (\<lambda>r. ss_date r = d) ?rows"
    unfolding assms(1) using assms(2) by (rule rows_of_date_after_run)
  have val: "overall_returns r =
          (\<Sum>f\<leftarrow>filter (\<lambda>f. event_type f = REFUND \<and> event_date f = d) (returns_fact db). amount f)"
    if "r \<in> set (sales_summary db')" "ss_date r = d" for r
  proof -
    from that have "r \<in> set (filter (\<lambda>r. ss_date r = d) (sales_summary db'))" by simp
    then have "r \<in> set ?rows" unfolding at_d by simp
    then have "overall_returns r = coalesce0 (map_of (RefundsByDate min_date max_date db) (ss_date r))"
      by (rule overall_returns_of_row)
    then show ?thesis
      using that(2) refunds_of_date [OF assms(2), of db] by simp
  qed
  have one: "length (filter (\<lambda>r. ss_date r = d) (sales_summary db')) \<le> 1"
    unfolding at_d by (rule filter_key_length) (rule distinct_sales_summary_rows)
  have ex: "\<exists>r\<in>set (sales_summary db'). ss_date r = d"
    if "\<exists>f\<in>set (returns_fact db). event_type f = REFUND \<and> event_date f = d"
  proof -
    from that assms(2) have "d \<in> fst ` set (RefundsByDate min_date max_date db)"
      unfolding set_RefundsByDate by blast
    then have "d \<in> set (AllDates min_date max_date db)"
      by (simp add: AllDates_def)
    then have "d \<in> set (map ss_date ?rows)"
      by (simp only: map_ss_date_rows)
    then obtain r where "r \<in> set ?rows" "ss_date r = d" by auto
    then have "r \<in> set (filter (\<lambda>r. ss_date r = d) (sales_summary db'))"
      unfolding at_d by simp
    then show ?thesis by auto
  qed
  show ?thesis
    unfolding facts using val one ex by blast
qed

lemma single_value:
  assumes "\<forall>r\<in>set xs. P r \<longrightarrow> f r = v" and "length (filter P xs) \<le> 1" and "\<exists>r\<in>set xs. P r"
  shows "map f (filter P xs) = [v]"
proof -
  from assms(3) have ne: "filter P xs \<noteq> []"
    by (auto simp: filter_empty_conv)
  with assms(2) obtain r where r: "filter P xs = [r]"
    by (cases "filter P xs") auto
  then have "r \<in> set (filter P xs)" by simp
  with assms(1) have "f r = v" by simp
  with r show ?thesis by simp
qed

theorem overall_returns_is_refund_total_witness:
  "between (2024, 3, 2) (2024, 3, 1) (2024, 3, 3) \<and>
   map overall_returns
     (filter (\<lambda>r. ss_date r = (2024, 3, 2))
        (sales_summary
           (execute_summary_queries_incremental (Some (2024, 3, 1)) (Some (2024, 3, 3)) march_db))) =
   [40]"
proof -
  let ?db' = "execute_summary_queries_incremental (Some (2024, 3, 1)) (Some (2024, 3, 3)) march_db"
  have b: "between (2024, 3, 2) (2024, 3, 1) (2024, 3, 3)"
    by (simp add: between_def)
  have facts: "returns_fact ?db' = returns_fact march_db"
    by (rule execute_sources_unchanged)
  have total: "(\<Sum>f\<leftarrow>filter (\<lambda>f. event_type f = REFUND \<and> event_date f = (2024, 3, 2))
                     (returns_fact ?db'). amount f) = 40"
    unfolding facts by (simp add: march_db_def)
  have ex: "\<exists>f\<in>set (returns_fact ?db'). event_type f = REFUND \<and> event_date f = (2024, 3, 2)"
    unfolding facts by (simp add: march_db_def)
  note t = overall_returns_is_refund_total [OF refl b, of march_db]
  have "map overall_returns (filter (\<lambda>r. ss_date r = (2024, 3, 2)) (sales_summary ?db')) = [40]"
  proof (rule single_value)
    show "\<forall>r\<in>set (sales_summary ?db'). ss_date r = (2024, 3, 2) \<longrightarrow> overall_returns r = 40"
      using t total by simp
    show "length (filter (\<lambda>r. ss_date r = (2024, 3, 2)) (sales_summary ?db')) \<le> 1"
      using t by blast
    show "\<exists>r\<in>set (sales_summary ?db'). ss_date r = (2024, 3, 2)"
      using t ex by blast
  qed
  with b show ?thesis by (rule conjI)
qed

end
